theory Spec2Isabelle
  imports Main
begin

section \<open>Python values, exceptions and the observable trace\<close>

text \<open>
  The adapter of \<^verbatim>\<open>vacuum.py\<close> is duck-typed: a fan speed is a name (a string) at one
  place and a code (an integer) at another, and every field starts as \<^verbatim>\<open>None\<close>.
  The values the adapter handles are therefore one datatype, and the membership tests and
  dictionary lookups of the source compare such values.
\<close>

datatype pyval = PNone | PInt int | PStr string

text \<open>
  The exception kinds that occur. \<^verbatim>\<open>DeviceException\<close> is imported from the package's
  \<^verbatim>\<open>miio\<close> module and \<^verbatim>\<open>OSError\<close> is the builtin; they are two distinct kinds, neither
  a subclass of the other (the specification lists them as the two error kinds of the
  component). \<^verbatim>\<open>OtherException\<close> stands for any further kind a collaborator may raise.
\<close>

datatype exn = DeviceException | OSError | KeyError | ValueError | TypeError | OtherException

datatype level = ERROR | DEBUG

datatype logarg = AVal pyval | AExn exn | AList "pyval list"

text \<open>The methods of the device client (\<^verbatim>\<open>DreameVacuum\<close>) that the adapter calls.\<close>

datatype dcall =
    Call_status
  | Call_find
  | Call_start
  | Call_stop
  | Call_return_home
  | Call_set_fan_speed pyval

text \<open>
  What the adapter does to the outside world, in order: the calls it issues to the device
  client and the entries it writes to the log (level, format string, arguments).
\<close>

datatype event = DeviceCall dcall | Log level string "logarg list"

fun device_calls :: "event list \<Rightarrow> dcall list" where
  "device_calls [] = []"
| "device_calls (DeviceCall c # es) = c # device_calls es"
| "device_calls (Log l m xs # es) = device_calls es"

section \<open>Dictionaries\<close>

text \<open>
  A Python dict keeps insertion order and \<^verbatim>\<open>list(d)\<close> lists its keys in that order, so a
  dict is an association list with distinct keys.
\<close>

type_synonym pydict = "(pyval \<times> pyval) list"

definition dict_contains :: "pydict \<Rightarrow> pyval \<Rightarrow> bool" where
  "dict_contains d k = (map_of d k \<noteq> None)"

definition dict_getitem :: "pydict \<Rightarrow> pyval \<Rightarrow> exn + pyval" where
  "dict_getitem d k = (case map_of d k of None \<Rightarrow> Inl KeyError | Some v \<Rightarrow> Inr v)"

fun dict_setitem :: "pydict \<Rightarrow> pyval \<Rightarrow> pyval \<Rightarrow> pydict" where
  "dict_setitem [] k v = [(k, v)]"
| "dict_setitem ((k', v') # d) k v =
     (if k' = k then (k', v) # d else (k', v') # dict_setitem d k v)"

definition dict_keys :: "pydict \<Rightarrow> pyval list" where
  "dict_keys d = map fst d"

text \<open>The comprehension \<^verbatim>\<open>{v: k for k, v in d.items()}\<close>.\<close>

definition dict_invert :: "pydict \<Rightarrow> pydict" where
  "dict_invert d = foldl (\<lambda>acc (k, v). dict_setitem acc v k) [] d"

section \<open>The builtin \<^verbatim>\<open>int\<close>\<close>

text \<open>
  \<^verbatim>\<open>int(x)\<close> returns an integer unchanged, raises \<^verbatim>\<open>TypeError\<close> on \<^verbatim>\<open>None\<close>, and parses a
  string in base 10: surrounding whitespace is dropped, then comes an optional sign and
  a non-empty run of digits in which single underscores may separate digits; anything
  else raises \<^verbatim>\<open>ValueError\<close>. Characters are code points below 256 here.
\<close>

definition is_space :: "char \<Rightarrow> bool" where
  "is_space c =
     (let n = (of_char c :: nat)
      in (9 \<le> n \<and> n \<le> 13) \<or> (28 \<le> n \<and> n \<le> 32) \<or> n = 133 \<or> n = 160)"

definition strip :: "string \<Rightarrow> string" where
  "strip s = rev (dropWhile is_space (rev (dropWhile is_space s)))"

definition digit_of :: "char \<Rightarrow> nat option" where
  "digit_of c =
     (let n = (of_char c :: nat) in if 48 \<le> n \<and> n \<le> 57 then Some (n - 48) else None)"

fun parse_digits :: "nat \<Rightarrow> bool \<Rightarrow> string \<Rightarrow> nat option" where
  "parse_digits acc after_digit [] = (if after_digit then Some acc else None)"
| "parse_digits acc after_digit (c # cs) =
     (if c = CHR ''_'' then (if after_digit then parse_digits acc False cs else None)
      else (case digit_of c of
              None \<Rightarrow> None
            | Some d \<Rightarrow> parse_digits (acc * 10 + d) True cs))"

definition parse_int :: "string \<Rightarrow> int option" where
  "parse_int s =
     (case strip s of
        [] \<Rightarrow> None
      | c # cs \<Rightarrow>
          if c = CHR ''-'' then map_option (\<lambda>n. - int n) (parse_digits 0 False cs)
          else if c = CHR ''+'' then map_option int (parse_digits 0 False cs)
          else map_option int (parse_digits 0 False (c # cs)))"

fun py_int :: "pyval \<Rightarrow> exn + int" where
  "py_int (PInt n) = Inr n"
| "py_int (PStr s) = (case parse_int s of None \<Rightarrow> Inl ValueError | Some n \<Rightarrow> Inr n)"
| "py_int PNone = Inl TypeError"

section \<open>Module constants\<close>

text \<open>
  The state labels are constants of the host platform
  (\<^verbatim>\<open>homeassistant.components.vacuum\<close>); their values are the platform's, which are the
  labels the specification lists.
\<close>

definition STATE_CLEANING :: string where "STATE_CLEANING = ''cleaning''"
definition STATE_IDLE :: string where "STATE_IDLE = ''idle''"
definition STATE_PAUSED :: string where "STATE_PAUSED = ''paused''"
definition STATE_ERROR :: string where "STATE_ERROR = ''error''"
definition STATE_RETURNING :: string where "STATE_RETURNING = ''returning''"
definition STATE_DOCKED :: string where "STATE_DOCKED = ''docked''"

definition ATTR_FAN_SPEED :: string where "ATTR_FAN_SPEED = ''fan_speed''"
definition ATTR_MAIN_BRUSH_LEFT_TIME :: string where
  "ATTR_MAIN_BRUSH_LEFT_TIME = ''main_brush_time_left''"
definition ATTR_MAIN_BRUSH_LIFE_LEVEL :: string where
  "ATTR_MAIN_BRUSH_LIFE_LEVEL = ''main_brush_life_level''"
definition ATTR_SIDE_BRUSH_LEFT_TIME :: string where
  "ATTR_SIDE_BRUSH_LEFT_TIME = ''side_brush_time_left''"
definition ATTR_SIDE_BRUSH_LIFE_LEVEL :: string where
  "ATTR_SIDE_BRUSH_LIFE_LEVEL = ''side_brush_life_level''"
definition ATTR_FILTER_LIFE_LEVEL :: string where
  "ATTR_FILTER_LIFE_LEVEL = ''filter_life_level''"
definition ATTR_FILTER_LEFT_TIME :: string where
  "ATTR_FILTER_LEFT_TIME = ''filter_left_time''"
definition ATTR_CLEANING_TOTAL_TIME :: string where
  "ATTR_CLEANING_TOTAL_TIME = ''total_cleaning_count''"

definition STATE_CODE_TO_STATE :: pydict where
  "STATE_CODE_TO_STATE =
     [(PInt 1, PStr STATE_CLEANING),
      (PInt 2, PStr STATE_IDLE),
      (PInt 3, PStr STATE_PAUSED),
      (PInt 4, PStr STATE_ERROR),
      (PInt 5, PStr STATE_RETURNING),
      (PInt 6, PStr STATE_DOCKED)]"

definition SPEED_CODE_TO_NAME :: pydict where
  "SPEED_CODE_TO_NAME =
     [(PInt 0, PStr ''Silent''),
      (PInt 1, PStr ''Standard''),
      (PInt 2, PStr ''Medium''),
      (PInt 3, PStr ''Turbo'')]"

section \<open>The device client and the adapter\<close>

text \<open>
  Modelled from the spec: the status object that the device client's \<^verbatim>\<open>status()\<close> returns
  is declared in the package's \<^verbatim>\<open>miio\<close> module, which is not among the sources; the
  specification gives its fields, all integers.
\<close>

record status_obj =
  s_status :: int
  s_battery :: int
  s_total_clean_count :: int
  s_fan_speed :: int
  s_brush_left_time :: int
  s_brush_life_level :: int
  s_brush_left_time2 :: int
  s_brush_life_level2 :: int
  s_filter_life_level :: int
  s_filter_left_time :: int

text \<open>
  The device client is an external collaborator: all the adapter sees of it is whether a
  call returns or raises. \<open>status_reply\<close> is the outcome of \<^verbatim>\<open>status()\<close> and
  \<open>command_reply c\<close> the exception the command \<open>c\<close> raises, if any.
\<close>

record device =
  status_reply :: "exn + status_obj"
  command_reply :: "dcall \<Rightarrow> exn option"

text \<open>The fields of \<^verbatim>\<open>MiroboVacuum\<close>; a dict-valued field is \<open>None\<close> while it holds \<^verbatim>\<open>None\<close>.\<close>

record adapter =
  adapter_name :: pyval
  fan_speeds :: "pydict option"
  fan_speeds_reverse :: "pydict option"
  vacuum_state :: pyval
  battery_percentage :: pyval
  current_fan_speed :: pyval
  main_brush_time_left :: pyval
  main_brush_life_level :: pyval
  side_brush_time_left :: pyval
  side_brush_life_level :: pyval
  filter_life_level :: pyval
  filter_left_time :: pyval
  total_clean_count :: pyval

definition MiroboVacuum_init :: "pyval \<Rightarrow> adapter" where
  "MiroboVacuum_init nm =
     \<lparr>adapter_name = nm,
      fan_speeds = None,
      fan_speeds_reverse = None,
      vacuum_state = PNone,
      battery_percentage = PNone,
      current_fan_speed = PNone,
      main_brush_time_left = PNone,
      main_brush_life_level = PNone,
      side_brush_time_left = PNone,
      side_brush_life_level = PNone,
      filter_life_level = PNone,
      filter_left_time = PNone,
      total_clean_count = PNone\<rparr>"

subsection \<open>Properties\<close>

text \<open>
  A property reads the adapter and may write to the log; it returns its value, or the
  exception that leaves it, and the extended trace.
\<close>

definition state :: "adapter \<Rightarrow> event list \<Rightarrow> (exn + pyval) \<times> event list" where
  "state a tr =
     (if vacuum_state a \<noteq> PNone then
        (case py_int (vacuum_state a) of
           Inl exc \<Rightarrow> (Inl exc, tr)
         | Inr n \<Rightarrow>
             (case dict_getitem STATE_CODE_TO_STATE (PInt n) of
                Inr v \<Rightarrow> (Inr v, tr)
              | Inl exc \<Rightarrow>
                  if exc = KeyError then
                    (Inr PNone,
                     tr @ [Log ERROR ''STATE_CODE not supported: %s'' [AVal (vacuum_state a)]])
                  else (Inl exc, tr)))
      else (Inr PNone, tr))"

definition battery_level :: "adapter \<Rightarrow> pyval" where
  "battery_level a = (if vacuum_state a \<noteq> PNone then battery_percentage a else PNone)"

definition fan_speed :: "adapter \<Rightarrow> event list \<Rightarrow> (exn + pyval) \<times> event list" where
  "fan_speed a tr =
     (if vacuum_state a \<noteq> PNone then
        (let speed = current_fan_speed a
         in case fan_speeds_reverse a of
              None \<Rightarrow> (Inl TypeError, tr)
            | Some d \<Rightarrow>
                if dict_contains d speed then (dict_getitem d speed, tr)
                else (Inr speed, tr @ [Log DEBUG ''Unable to find reverse for %s'' [AVal speed]]))
      else (Inr PNone, tr))"

definition fan_speed_list :: "adapter \<Rightarrow> pyval list" where
  "fan_speed_list a =
     (case fan_speeds a of
        None \<Rightarrow> []
      | Some d \<Rightarrow> if d \<noteq> [] then dict_keys d else [])"

definition device_state_attributes :: "adapter \<Rightarrow> pydict option" where
  "device_state_attributes a =
     (if vacuum_state a \<noteq> PNone then
        Some [(PStr ATTR_FAN_SPEED, current_fan_speed a),
              (PStr ATTR_MAIN_BRUSH_LEFT_TIME, main_brush_time_left a),
              (PStr ATTR_MAIN_BRUSH_LIFE_LEVEL, main_brush_life_level a),
              (PStr ATTR_SIDE_BRUSH_LEFT_TIME, side_brush_time_left a),
              (PStr ATTR_SIDE_BRUSH_LIFE_LEVEL, side_brush_life_level a),
              (PStr ATTR_FILTER_LIFE_LEVEL, filter_life_level a),
              (PStr ATTR_FILTER_LEFT_TIME, filter_left_time a),
              (PStr ATTR_CLEANING_TOTAL_TIME, total_clean_count a)]
      else None)"

subsection \<open>Commands\<close>

text \<open>
  \<^verbatim>\<open>_try_command\<close> hands the call to the platform's executor and awaits it, so the call is
  issued once and what it raises reaches the \<^verbatim>\<open>except\<close> clause, which catches
  \<^verbatim>\<open>DeviceException\<close> only.
\<close>

definition try_command ::
  "string \<Rightarrow> dcall \<Rightarrow> device \<Rightarrow> event list \<Rightarrow> (exn + bool) \<times> event list" where
  "try_command mask_error func dev tr =
     (case command_reply dev func of
        None \<Rightarrow> (Inr True, tr @ [DeviceCall func])
      | Some exc \<Rightarrow>
          if exc = DeviceException then
            (Inr False, tr @ [DeviceCall func, Log ERROR mask_error [AExn exc]])
          else (Inl exc, tr @ [DeviceCall func]))"

text \<open>
  A command awaits \<^verbatim>\<open>_try_command\<close> and drops its result; it returns nothing, or the
  exception that leaves it, with the adapter and the extended trace.
\<close>

definition command ::
  "string \<Rightarrow> dcall \<Rightarrow> device \<Rightarrow> adapter \<Rightarrow> event list \<Rightarrow> (exn + unit) \<times> adapter \<times> event list"
  where
  "command mask_error func dev a tr =
     (case try_command mask_error func dev tr of
        (Inl exc, tr') \<Rightarrow> (Inl exc, a, tr')
      | (Inr ok, tr') \<Rightarrow> (Inr (), a, tr'))"

definition async_locate ::
  "device \<Rightarrow> adapter \<Rightarrow> event list \<Rightarrow> (exn + unit) \<times> adapter \<times> event list" where
  "async_locate = command ''Unable to locate the botvac: %s'' Call_find"

definition async_start ::
  "device \<Rightarrow> adapter \<Rightarrow> event list \<Rightarrow> (exn + unit) \<times> adapter \<times> event list" where
  "async_start = command ''Unable to start the vacuum: %s'' Call_start"

definition async_stop ::
  "device \<Rightarrow> adapter \<Rightarrow> event list \<Rightarrow> (exn + unit) \<times> adapter \<times> event list" where
  "async_stop = command ''Unable to stop: %s'' Call_stop"

definition async_pause ::
  "device \<Rightarrow> adapter \<Rightarrow> event list \<Rightarrow> (exn + unit) \<times> adapter \<times> event list" where
  "async_pause = command ''Unable to set start/pause: %s'' Call_stop"

definition async_return_to_base ::
  "device \<Rightarrow> adapter \<Rightarrow> event list \<Rightarrow> (exn + unit) \<times> adapter \<times> event list" where
  "async_return_to_base = command ''Unable to return home: %s'' Call_return_home"

definition async_set_fan_speed ::
  "pyval \<Rightarrow> device \<Rightarrow> adapter \<Rightarrow> event list \<Rightarrow> (exn + unit) \<times> adapter \<times> event list"
  where
  "async_set_fan_speed requested dev a tr =
     (case fan_speeds a of
        None \<Rightarrow> (Inl TypeError, a, tr)
      | Some d \<Rightarrow>
          if dict_contains d requested then
            (case dict_getitem d requested of
               Inl exc \<Rightarrow> (Inl exc, a, tr)
             | Inr v \<Rightarrow>
                 command ''Unable to set fan speed: %s'' (Call_set_fan_speed v) dev a tr)
          else
            (case py_int requested of
               Inl exc \<Rightarrow>
                 if exc = ValueError then
                   (Inr (), a,
                    tr @ [Log ERROR ''Fan speed step not recognized (%s). Valid speeds are: %s''
                            [AExn exc, AList (fan_speed_list a)]])
                 else (Inl exc, a, tr)
             | Inr n \<Rightarrow>
                 command ''Unable to set fan speed: %s'' (Call_set_fan_speed (PInt n)) dev a tr))"

subsection \<open>Polling\<close>

definition update ::
  "device \<Rightarrow> adapter \<Rightarrow> event list \<Rightarrow> (exn + unit) \<times> adapter \<times> event list" where
  "update dev a tr =
     (case status_reply dev of
        Inr st \<Rightarrow>
          (Inr (),
           a\<lparr>vacuum_state := PInt (s_status st),
             fan_speeds := Some SPEED_CODE_TO_NAME,
             fan_speeds_reverse := Some (dict_invert SPEED_CODE_TO_NAME),
             battery_percentage := PInt (s_battery st),
             total_clean_count := PInt (s_total_clean_count st),
             current_fan_speed := PInt (s_fan_speed st),
             main_brush_time_left := PInt (s_brush_left_time st),
             main_brush_life_level := PInt (s_brush_life_level st),
             side_brush_time_left := PInt (s_brush_left_time2 st),
             side_brush_life_level := PInt (s_brush_life_level2 st),
             filter_life_level := PInt (s_filter_life_level st),
             filter_left_time := PInt (s_filter_left_time st)\<rparr>,
           tr @ [DeviceCall Call_status])
      | Inl exc \<Rightarrow>
          if exc = OSError then
            (Inr (), a,
             tr @ [DeviceCall Call_status,
                   Log ERROR ''Got OSError while fetching the state: %s'' [AExn exc]])
          else (Inl exc, a, tr @ [DeviceCall Call_status]))"

section \<open>Basic facts\<close>

lemma dict_invert_SPEED_CODE_TO_NAME:
  "dict_invert SPEED_CODE_TO_NAME =
     [(PStr ''Silent'', PInt 0),
      (PStr ''Standard'', PInt 1),
      (PStr ''Medium'', PInt 2),
      (PStr ''Turbo'', PInt 3)]"
  by (simp add: dict_invert_def SPEED_CODE_TO_NAME_def)

lemma device_calls_append: "device_calls (xs @ ys) = device_calls xs @ device_calls ys"
  by (induction xs rule: device_calls.induct) simp_all

lemma command_adapter: "fst (snd (command m c dev a tr)) = a"
  by (simp add: command_def try_command_def split: option.splits)

lemma command_calls: "device_calls (snd (snd (command m c dev a tr))) = device_calls tr @ [c]"
  by (simp add: command_def try_command_def device_calls_append split: option.splits)

lemma parse_int_7: "parse_int ''7'' = Some 7"
  by (simp add: parse_int_def strip_def is_space_def digit_of_def)

lemma parse_int_Turbo: "parse_int ''Turbo'' = None"
  by (simp add: parse_int_def strip_def is_space_def digit_of_def)

lemma parse_int_bogus: "parse_int ''bogus'' = None"
  by (simp add: parse_int_def strip_def is_space_def digit_of_def)

text \<open>A poll whose status fetch returns overwrites every snapshot field and both maps.\<close>

lemma update_success:
  "status_reply dev = Inr st \<Longrightarrow>
   update dev a tr =
     (Inr (),
      a\<lparr>vacuum_state := PInt (s_status st),
        fan_speeds := Some SPEED_CODE_TO_NAME,
        fan_speeds_reverse := Some (dict_invert SPEED_CODE_TO_NAME),
        battery_percentage := PInt (s_battery st),
        total_clean_count := PInt (s_total_clean_count st),
        current_fan_speed := PInt (s_fan_speed st),
        main_brush_time_left := PInt (s_brush_left_time st),
        main_brush_life_level := PInt (s_brush_life_level st),
        side_brush_time_left := PInt (s_brush_left_time2 st),
        side_brush_life_level := PInt (s_brush_life_level2 st),
        filter_life_level := PInt (s_filter_life_level st),
        filter_left_time := PInt (s_filter_left_time st)\<rparr>,
      tr @ [DeviceCall Call_status])"
  by (simp add: update_def)

lemma polled_fields:
  assumes "status_reply dev = Inr st" and "update dev a0 tr0 = (r, a, tr1)"
  shows "vacuum_state a = PInt (s_status st)"
    and "fan_speeds a = Some SPEED_CODE_TO_NAME"
    and "fan_speeds_reverse a = Some (dict_invert SPEED_CODE_TO_NAME)"
    and "current_fan_speed a = PInt (s_fan_speed st)"
    and "battery_percentage a = PInt (s_battery st)"
  using assms by (auto simp: update_success)

lemma update_OSError:
  "status_reply dev = Inl OSError \<Longrightarrow>
   update dev a tr =
     (Inr (), a,
      tr @ [DeviceCall Call_status,
            Log ERROR ''Got OSError while fetching the state: %s'' [AExn OSError]])"
  by (simp add: update_def)

lemma update_propagates:
  "status_reply dev = Inl exc \<Longrightarrow> exc \<noteq> OSError \<Longrightarrow>
   update dev a tr = (Inl exc, a, tr @ [DeviceCall Call_status])"
  by (simp add: update_def)

lemma state_of_code:
  "vacuum_state a = PInt c \<Longrightarrow>
   state a tr =
     (case map_of STATE_CODE_TO_STATE (PInt c) of
        Some v \<Rightarrow> (Inr v, tr)
      | None \<Rightarrow>
          (Inr PNone, tr @ [Log ERROR ''STATE_CODE not supported: %s'' [AVal (PInt c)]]))"
  by (simp add: state_def dict_getitem_def split: option.splits)

text \<open>
  Once \<open>fan_speeds\<close> holds \<open>SPEED_CODE_TO_NAME\<close>, whose keys are the integer codes, no
  string is a key of it: a string that \<^verbatim>\<open>int\<close> rejects ends in the error branch, whatever
  the string is, and the list that the message shows is the list of the codes.
\<close>

lemma set_fan_speed_unparseable:
  assumes "fan_speeds a = Some SPEED_CODE_TO_NAME" and "parse_int s = None"
  shows "async_set_fan_speed (PStr s) dev a tr =
           (Inr (), a,
            tr @ [Log ERROR ''Fan speed step not recognized (%s). Valid speeds are: %s''
                    [AExn ValueError, AList [PInt 0, PInt 1, PInt 2, PInt 3]]])"
  using assms
  by (simp add: async_set_fan_speed_def dict_contains_def SPEED_CODE_TO_NAME_def
      fan_speed_list_def dict_keys_def)

section \<open>Setting the fan speed after a poll\<close>

text \<open>
  C1. After a successful poll, \<^verbatim>\<open>set_fan_speed("Turbo")\<close> should resolve the name to the
  code 3 and issue one device call with it, and \<^verbatim>\<open>set_fan_speed("7")\<close> should issue one
  device call with the integer 7. The second half holds. The first does not:
  \<^verbatim>\<open>update\<close> stores \<open>SPEED_CODE_TO_NAME\<close>, keyed by code, in the field that
  \<^verbatim>\<open>async_set_fan_speed\<close> searches for the name, so \<^verbatim>\<open>"Turbo"\<close> is not found, \<^verbatim>\<open>int("Turbo")\<close>
  raises \<^verbatim>\<open>ValueError\<close>, and the command logs the error and returns with no device call.
  The theorem evaluates the command after any successful poll (any earlier adapter and
  trace, any status object, any device behaviour for the command itself).
\<close>

theorem set_fan_speed_after_poll:
  "(case update (dev\<lparr>status_reply := Inr st\<rparr>) a0 tr0 of (r, a, tr1) \<Rightarrow>
      async_set_fan_speed (PStr ''Turbo'') dev' a tr =
        (Inr (), a,
         tr @ [Log ERROR ''Fan speed step not recognized (%s). Valid speeds are: %s''
                 [AExn ValueError, AList [PInt 0, PInt 1, PInt 2, PInt 3]]])
      \<and> device_calls (snd (snd (async_set_fan_speed (PStr ''Turbo'') dev' a tr)))
          = device_calls tr
      \<and> device_calls (snd (snd (async_set_fan_speed (PStr ''7'') dev' a tr)))
          = device_calls tr @ [Call_set_fan_speed (PInt 7)])"
proof -
  obtain r a tr1 where u: "update (dev\<lparr>status_reply := Inr st\<rparr>) a0 tr0 = (r, a, tr1)"
    by (cases "update (dev\<lparr>status_reply := Inr st\<rparr>) a0 tr0") auto
  have fs: "fan_speeds a = Some SPEED_CODE_TO_NAME"
    using polled_fields(2)[OF _ u] by simp
  have turbo: "async_set_fan_speed (PStr ''Turbo'') dev' a tr =
        (Inr (), a,
         tr @ [Log ERROR ''Fan speed step not recognized (%s). Valid speeds are: %s''
                 [AExn ValueError, AList [PInt 0, PInt 1, PInt 2, PInt 3]]])"
    by (rule set_fan_speed_unparseable[OF fs parse_int_Turbo])
  have seven: "async_set_fan_speed (PStr ''7'') dev' a tr =
      command ''Unable to set fan speed: %s'' (Call_set_fan_speed (PInt 7)) dev' a tr"
    using fs
    by (simp add: async_set_fan_speed_def dict_contains_def SPEED_CODE_TO_NAME_def parse_int_7)
  show ?thesis
    unfolding u using turbo seven by (simp add: device_calls_append command_calls)
qed

text \<open>
  C8. After a successful poll, an argument that is neither a speed name nor an integer
  (\<^verbatim>\<open>"bogus"\<close>) should be answered by an error entry listing the valid names, with no device
  call, no exception and no change of the adapter. The code issues no call, raises
  nothing and leaves the adapter as it is; but the entry lists \<^verbatim>\<open>fan_speed_list\<close>, which
  after a poll is the list of the codes 0 to 3, not of the names.
\<close>

theorem set_fan_speed_bogus_after_poll:
  "(case update (dev\<lparr>status_reply := Inr st\<rparr>) a0 tr0 of (r, a, tr1) \<Rightarrow>
      async_set_fan_speed (PStr ''bogus'') dev' a tr =
        (Inr (), a,
         tr @ [Log ERROR ''Fan speed step not recognized (%s). Valid speeds are: %s''
                 [AExn ValueError, AList [PInt 0, PInt 1, PInt 2, PInt 3]]]))"
proof -
  obtain r a tr1 where u: "update (dev\<lparr>status_reply := Inr st\<rparr>) a0 tr0 = (r, a, tr1)"
    by (cases "update (dev\<lparr>status_reply := Inr st\<rparr>) a0 tr0") auto
  have fs: "fan_speeds a = Some SPEED_CODE_TO_NAME"
    using polled_fields(2)[OF _ u] by simp
  show ?thesis
    unfolding u by (simp add: set_fan_speed_unparseable[OF fs parse_int_bogus])
qed

text \<open>
  C10. Before any successful poll the field \<open>fan_speeds\<close> still holds \<^verbatim>\<open>None\<close>, so the
  membership test of \<^verbatim>\<open>async_set_fan_speed\<close> raises \<^verbatim>\<open>TypeError\<close>, which nothing catches:
  the exception leaves the command, nothing is logged and no device call is issued.
\<close>

theorem set_fan_speed_before_poll_raises:
  assumes "fan_speeds a = None"
  shows "async_set_fan_speed requested dev a tr = (Inl TypeError, a, tr)"
  using assms by (simp add: async_set_fan_speed_def)

theorem set_fan_speed_before_poll_raises_witness:
  "fan_speeds (MiroboVacuum_init (PStr ''robot'')) = None
   \<and> async_set_fan_speed (PStr ''Turbo'')
        \<lparr>status_reply = Inl OSError, command_reply = (\<lambda>c. None)\<rparr>
        (MiroboVacuum_init (PStr ''robot'')) []
      = (Inl TypeError, MiroboVacuum_init (PStr ''robot''), [])"
proof -
  have h: "fan_speeds (MiroboVacuum_init (PStr ''robot'')) = None"
    by (simp add: MiroboVacuum_init_def)
  show ?thesis
    using h set_fan_speed_before_poll_raises[OF h] by simp
qed

section \<open>The fan-speed properties\<close>

text \<open>
  C2. For a fan-speed code 0 to 3 stored by a successful poll, \<^verbatim>\<open>fan_speed\<close> should
  return the matching name. It does not: the property looks the stored code up in
  \<open>fan_speeds_reverse\<close>, which \<^verbatim>\<open>update\<close> builds with the names as keys, so no integer
  code has an entry there. For every stored code the property returns the raw code and
  writes the debug entry.
\<close>

theorem fan_speed_after_poll_is_raw_code:
  "(case update (dev\<lparr>status_reply := Inr st\<rparr>) a0 tr0 of (r, a, tr1) \<Rightarrow>
      fan_speed a tr =
        (Inr (PInt (s_fan_speed st)),
         tr @ [Log DEBUG ''Unable to find reverse for %s'' [AVal (PInt (s_fan_speed st))]]))"
  by (simp add: update_def fan_speed_def dict_invert_SPEED_CODE_TO_NAME dict_contains_def
      Let_def)

text \<open>
  C3. \<^verbatim>\<open>fan_speed_list\<close> should be the four speed names once a poll has succeeded and
  empty before. It is empty before; after a poll it is \<^verbatim>\<open>list(SPEED_CODE_TO_NAME)\<close>, the
  keys of a dict keyed by code: the integers 0, 1, 2, 3.
\<close>

theorem fan_speed_list_after_poll_is_codes:
  "(case update (dev\<lparr>status_reply := Inr st\<rparr>) a0 tr0 of (r, a, tr1) \<Rightarrow>
      fan_speed_list a = [PInt 0, PInt 1, PInt 2, PInt 3])
   \<and> fan_speed_list (MiroboVacuum_init nm) = []"
  by (simp add: update_def fan_speed_list_def dict_keys_def SPEED_CODE_TO_NAME_def
      MiroboVacuum_init_def)

section \<open>The state property\<close>

text \<open>
  C4, as stated, fails. For a stored status code outside 1 to 6 the property is claimed
  to return the unknown label. The \<^verbatim>\<open>except KeyError\<close> branch returns \<^verbatim>\<open>None\<close>: for the
  code 7 the result is no label at all, and the same value as before any poll.
\<close>

theorem state_unrecognised_code_counterexample:
  "(let st = \<lparr>s_status = 7, s_battery = 80, s_total_clean_count = 12, s_fan_speed = 1,
              s_brush_left_time = 100, s_brush_life_level = 90, s_brush_left_time2 = 100,
              s_brush_life_level2 = 90, s_filter_life_level = 90, s_filter_left_time = 100\<rparr>;
        dev = \<lparr>status_reply = Inr st, command_reply = (\<lambda>c. None)\<rparr>;
        a0 = MiroboVacuum_init (PStr ''robot'');
        a = fst (snd (update dev a0 []))
    in fst (state a []) = Inr PNone
       \<and> fst (state a []) \<noteq> Inr (PStr ''unknown'')
       \<and> fst (state a []) = fst (state a0 []))"
  by (simp add: update_def STATE_CODE_TO_STATE_def state_def dict_getitem_def
      MiroboVacuum_init_def Let_def)

text \<open>
  C4, amended. For every status code outside 1 to 6 stored by a successful poll, the
  state property returns \<^verbatim>\<open>None\<close>, writes exactly one error entry to the log (naming the
  code) and raises nothing.
\<close>

theorem state_unrecognised_code:
  assumes "status_reply dev = Inr st"
    and "update dev a0 tr0 = (r, a, tr1)"
    and "s_status st < 1 \<or> 6 < s_status st"
  shows "state a tr =
           (Inr PNone,
            tr @ [Log ERROR ''STATE_CODE not supported: %s'' [AVal (PInt (s_status st))]])"
proof -
  have "vacuum_state a = PInt (s_status st)"
    by (rule polled_fields(1)[OF assms(1,2)])
  moreover have "map_of STATE_CODE_TO_STATE (PInt (s_status st)) = None"
    using assms(3) by (auto simp: STATE_CODE_TO_STATE_def)
  ultimately show ?thesis
    by (simp add: state_of_code)
qed

theorem state_unrecognised_code_witness:
  "(let st = \<lparr>s_status = 0, s_battery = 80, s_total_clean_count = 12, s_fan_speed = 1,
              s_brush_left_time = 100, s_brush_life_level = 90, s_brush_left_time2 = 100,
              s_brush_life_level2 = 90, s_filter_life_level = 90, s_filter_left_time = 100\<rparr>;
        dev = \<lparr>status_reply = Inr st, command_reply = (\<lambda>c. None)\<rparr>;
        a0 = MiroboVacuum_init (PStr ''robot'')
    in status_reply dev = Inr st
       \<and> (s_status st < 1 \<or> 6 < s_status st)
       \<and> state (fst (snd (update dev a0 []))) []
           = (Inr PNone, [Log ERROR ''STATE_CODE not supported: %s'' [AVal (PInt 0)]]))"
proof -
  define st where "st = \<lparr>s_status = 0, s_battery = 80, s_total_clean_count = 12, s_fan_speed = 1,
              s_brush_left_time = 100, s_brush_life_level = 90, s_brush_left_time2 = 100,
              s_brush_life_level2 = 90, s_filter_life_level = 90, s_filter_left_time = 100\<rparr>"
  define dev where "dev = \<lparr>status_reply = Inr st, command_reply = (\<lambda>c. None)\<rparr>"
  define a0 where "a0 = MiroboVacuum_init (PStr ''robot'')"
  have h1: "status_reply dev = Inr st" by (simp add: dev_def)
  have h2: "update dev a0 [] =
              (fst (update dev a0 []), fst (snd (update dev a0 [])), snd (snd (update dev a0 [])))"
    by simp
  have h3: "s_status st < 1 \<or> 6 < s_status st" by (simp add: st_def)
  have "state (fst (snd (update dev a0 []))) []
          = (Inr PNone,
             [] @ [Log ERROR ''STATE_CODE not supported: %s'' [AVal (PInt (s_status st))]])"
    by (rule state_unrecognised_code[OF h1 h2 h3])
  then show ?thesis
    using h1 h3 unfolding Let_def st_def[symmetric] dev_def[symmetric] a0_def[symmetric]
    by (simp add: st_def)
qed

text \<open>
  C5. For every status code 1 to 6 stored by a successful poll, the state property
  returns the corresponding label (1 cleaning, 2 idle, 3 paused, 4 error, 5 returning,
  6 docked) and logs nothing.
\<close>

theorem state_recognised_code:
  assumes "status_reply dev = Inr st"
    and "update dev a0 tr0 = (r, a, tr1)"
    and "1 \<le> s_status st" and "s_status st \<le> 6"
  shows "state a tr =
           (Inr (PStr (if s_status st = 1 then ''cleaning''
                       else if s_status st = 2 then ''idle''
                       else if s_status st = 3 then ''paused''
                       else if s_status st = 4 then ''error''
                       else if s_status st = 5 then ''returning''
                       else ''docked'')), tr)"
proof -
  have v: "vacuum_state a = PInt (s_status st)"
    by (rule polled_fields(1)[OF assms(1,2)])
  from assms(3,4) consider "s_status st = 1" | "s_status st = 2" | "s_status st = 3"
    | "s_status st = 4" | "s_status st = 5" | "s_status st = 6"
    by linarith
  then show ?thesis
    by cases (simp_all add: state_of_code[OF v] STATE_CODE_TO_STATE_def STATE_CLEANING_def
        STATE_IDLE_def STATE_PAUSED_def STATE_ERROR_def STATE_RETURNING_def STATE_DOCKED_def)
qed

theorem state_recognised_code_witness:
  "(let mk = (\<lambda>c. \<lparr>s_status = c, s_battery = 80, s_total_clean_count = 12, s_fan_speed = 1,
              s_brush_left_time = 100, s_brush_life_level = 90, s_brush_left_time2 = 100,
              s_brush_life_level2 = 90, s_filter_life_level = 90, s_filter_left_time = 100\<rparr>);
        poll = (\<lambda>c. fst (snd (update \<lparr>status_reply = Inr (mk c), command_reply = (\<lambda>c. None)\<rparr>
                                  (MiroboVacuum_init (PStr ''robot'')) [])))
    in state (poll 1) [] = (Inr (PStr ''cleaning''), [])
       \<and> state (poll 2) [] = (Inr (PStr ''idle''), [])
       \<and> state (poll 3) [] = (Inr (PStr ''paused''), [])
       \<and> state (poll 4) [] = (Inr (PStr ''error''), [])
       \<and> state (poll 5) [] = (Inr (PStr ''returning''), [])
       \<and> state (poll 6) [] = (Inr (PStr ''docked''), []))"
proof -
  define mk where "mk = (\<lambda>c. \<lparr>s_status = c, s_battery = 80, s_total_clean_count = 12, s_fan_speed = 1,
              s_brush_left_time = 100, s_brush_life_level = 90, s_brush_left_time2 = 100,
              s_brush_life_level2 = 90, s_filter_life_level = 90, s_filter_left_time = 100\<rparr>)"
  define dev where "dev = (\<lambda>c. \<lparr>status_reply = Inr (mk c), command_reply = (\<lambda>c. None)\<rparr>)"
  define a0 where "a0 = MiroboVacuum_init (PStr ''robot'')"
  have c: "s_status (mk c) = c" for c by (simp add: mk_def)
  have d: "status_reply (dev c) = Inr (mk c)" for c by (simp add: dev_def)
  have u: "update (dev c) a0 [] =
             (fst (update (dev c) a0 []), fst (snd (update (dev c) a0 [])),
              snd (snd (update (dev c) a0 [])))" for c
    by simp
  have k: "1 \<le> c \<Longrightarrow> c \<le> 6 \<Longrightarrow>
      state (fst (snd (update (dev c) a0 []))) [] =
           (Inr (PStr (if c = 1 then ''cleaning''
                       else if c = 2 then ''idle''
                       else if c = 3 then ''paused''
                       else if c = 4 then ''error''
                       else if c = 5 then ''returning''
                       else ''docked'')), [])" for c
    using state_recognised_code[OF d u, of c "[]"] by (simp add: c)
  show ?thesis
    unfolding Let_def mk_def[symmetric] a0_def[symmetric]
    using k[of 1] k[of 2] k[of 3] k[of 4] k[of 5] k[of 6] by (simp add: dev_def)
qed

section \<open>Failures of the device client\<close>

text \<open>
  C6. When the status fetch of \<^verbatim>\<open>update\<close> raises \<^verbatim>\<open>OSError\<close>, the error is logged, nothing
  is raised, and the adapter is exactly what it was: every snapshot field and both maps
  keep their values, and so does every derived property.
\<close>

theorem update_OSError_keeps_snapshot:
  assumes "status_reply dev = Inl OSError"
  shows "(case update dev a tr of (r, a', tr') \<Rightarrow>
            r = Inr ()
            \<and> tr' = tr @ [DeviceCall Call_status,
                           Log ERROR ''Got OSError while fetching the state: %s'' [AExn OSError]]
            \<and> a' = a
            \<and> state a' t = state a t
            \<and> battery_level a' = battery_level a
            \<and> fan_speed a' t = fan_speed a t
            \<and> device_state_attributes a' = device_state_attributes a
            \<and> fan_speed_list a' = fan_speed_list a)"
  by (simp add: update_OSError[OF assms])

theorem update_OSError_keeps_snapshot_witness:
  "(let st = \<lparr>s_status = 6, s_battery = 80, s_total_clean_count = 12, s_fan_speed = 1,
              s_brush_left_time = 100, s_brush_life_level = 90, s_brush_left_time2 = 100,
              s_brush_life_level2 = 90, s_filter_life_level = 90, s_filter_left_time = 100\<rparr>;
        a = fst (snd (update \<lparr>status_reply = Inr st, command_reply = (\<lambda>c. None)\<rparr>
                        (MiroboVacuum_init (PStr ''robot'')) []));
        dev = \<lparr>status_reply = Inl OSError, command_reply = (\<lambda>c. None)\<rparr>
    in status_reply dev = Inl OSError
       \<and> fst (update dev a []) = Inr ()
       \<and> fst (snd (update dev a [])) = a
       \<and> battery_level (fst (snd (update dev a []))) = PInt 80
       \<and> fst (state (fst (snd (update dev a []))) []) = Inr (PStr ''docked''))"
proof -
  define st where "st = \<lparr>s_status = 6, s_battery = 80, s_total_clean_count = 12, s_fan_speed = 1,
              s_brush_left_time = 100, s_brush_life_level = 90, s_brush_left_time2 = 100,
              s_brush_life_level2 = 90, s_filter_life_level = 90, s_filter_left_time = 100\<rparr>"
  define a where "a = fst (snd (update \<lparr>status_reply = Inr st, command_reply = (\<lambda>c. None)\<rparr>
                        (MiroboVacuum_init (PStr ''robot'')) []))"
  define dev where "dev = \<lparr>status_reply = Inl OSError, command_reply = (\<lambda>c. None)\<rparr>"
  have h: "status_reply dev = Inl OSError" by (simp add: dev_def)
  have same: "fst (update dev a []) = Inr () \<and> fst (snd (update dev a [])) = a"
    using update_OSError_keeps_snapshot[OF h, where a = a and tr = "[]" and t = "[]"]
    by (simp add: case_prod_beta)
  have b: "battery_level a = PInt 80"
    by (simp add: a_def st_def update_def battery_level_def)
  have s: "fst (state a []) = Inr (PStr ''docked'')"
    by (simp add: a_def st_def update_def state_def dict_getitem_def STATE_CODE_TO_STATE_def
        STATE_DOCKED_def)
  show ?thesis
    unfolding Let_def st_def[symmetric] a_def[symmetric] dev_def[symmetric]
    using h same b s by simp
qed

text \<open>
  C7, as stated, fails. Not every failure of the device client is stopped by the
  adapter: \<^verbatim>\<open>update\<close> catches \<^verbatim>\<open>OSError\<close> only, so a \<^verbatim>\<open>DeviceException\<close> raised by the status
  call leaves \<^verbatim>\<open>update\<close>.
\<close>

theorem poll_failure_not_always_caught_counterexample:
  "fst (update \<lparr>status_reply = Inl DeviceException, command_reply = (\<lambda>c. None)\<rparr>
          (MiroboVacuum_init (PStr ''robot'')) []) = Inl DeviceException"
  by (simp add: update_def)

text \<open>
  C7, amended. Each failure kind is caught at its own call site. A \<^verbatim>\<open>DeviceException\<close>
  raised by the device client during a command is caught in \<^verbatim>\<open>_try_command\<close>, logged and
  turned into the result \<^verbatim>\<open>False\<close>, so that the command returns normally. An \<^verbatim>\<open>OSError\<close>
  raised by the status call during a poll is caught in \<^verbatim>\<open>update\<close>, logged and turned into
  a poll that changes nothing. A failure of any other kind raised by the status call is
  not caught by \<^verbatim>\<open>update\<close> and reaches its caller, the adapter unchanged.
\<close>

theorem failures_caught_by_kind:
  "(command_reply dev c = Some DeviceException \<longrightarrow>
      try_command m c dev tr
        = (Inr False, tr @ [DeviceCall c, Log ERROR m [AExn DeviceException]])
      \<and> command m c dev a tr
        = (Inr (), a, tr @ [DeviceCall c, Log ERROR m [AExn DeviceException]]))
   \<and> (status_reply dev = Inl OSError \<longrightarrow>
        update dev a tr =
          (Inr (), a,
           tr @ [DeviceCall Call_status,
                 Log ERROR ''Got OSError while fetching the state: %s'' [AExn OSError]]))
   \<and> (status_reply dev = Inl exc \<and> exc \<noteq> OSError \<longrightarrow>
        update dev a tr = (Inl exc, a, tr @ [DeviceCall Call_status]))"
  by (simp add: try_command_def command_def update_OSError update_propagates)

theorem failures_caught_by_kind_witness:
  "(let a = MiroboVacuum_init (PStr ''robot'');
        dev1 = \<lparr>status_reply = Inl OSError, command_reply = (\<lambda>c. Some DeviceException)\<rparr>;
        dev2 = \<lparr>status_reply = Inl DeviceException, command_reply = (\<lambda>c. None)\<rparr>
    in command_reply dev1 Call_start = Some DeviceException
       \<and> try_command ''Unable to start the vacuum: %s'' Call_start dev1 []
           = (Inr False,
              [DeviceCall Call_start,
               Log ERROR ''Unable to start the vacuum: %s'' [AExn DeviceException]])
       \<and> fst (async_start dev1 a []) = Inr ()
       \<and> status_reply dev1 = Inl OSError
       \<and> update dev1 a []
           = (Inr (), a,
              [DeviceCall Call_status,
               Log ERROR ''Got OSError while fetching the state: %s'' [AExn OSError]])
       \<and> status_reply dev2 = Inl DeviceException
       \<and> update dev2 a [] = (Inl DeviceException, a, [DeviceCall Call_status]))"
proof -
  define a where "a = MiroboVacuum_init (PStr ''robot'')"
  define dev1 where
    "dev1 = \<lparr>status_reply = Inl OSError, command_reply = (\<lambda>c. Some DeviceException)\<rparr>"
  define dev2 where
    "dev2 = \<lparr>status_reply = (Inl DeviceException :: exn + status_obj),
             command_reply = (\<lambda>c. None)\<rparr>"
  have h1: "command_reply dev1 Call_start = Some DeviceException" by (simp add: dev1_def)
  have h2: "status_reply dev1 = Inl OSError" by (simp add: dev1_def)
  have h3: "status_reply dev2 = Inl DeviceException \<and> DeviceException \<noteq> OSError"
    by (simp add: dev2_def)
  note t1 = failures_caught_by_kind
    [of dev1 Call_start "''Unable to start the vacuum: %s''" "[]" a OSError]
  note t2 = failures_caught_by_kind
    [of dev2 Call_start "''Unable to start the vacuum: %s''" "[]" a DeviceException]
  show ?thesis
    unfolding Let_def a_def[symmetric] dev1_def[symmetric] dev2_def[symmetric]
    using t1 t2 h1 h2 h3 by (simp add: async_start_def)
qed

section \<open>Pause and stop\<close>

text \<open>
  C9. The pause command and the stop command issue the same device-client calls: each
  issues exactly one call, the device client's \<^verbatim>\<open>stop\<close>, and both return the same result
  and leave the adapter unchanged. (Only the text of the error entry written when the
  call fails differs.)
\<close>

theorem pause_same_device_calls_as_stop:
  "device_calls (snd (snd (async_pause dev a tr)))
     = device_calls (snd (snd (async_stop dev a tr)))
   \<and> device_calls (snd (snd (async_pause dev a tr))) = device_calls tr @ [Call_stop]
   \<and> fst (async_pause dev a tr) = fst (async_stop dev a tr)
   \<and> fst (snd (async_pause dev a tr)) = a
   \<and> fst (snd (async_stop dev a tr)) = a"
  by (simp add: async_pause_def async_stop_def command_calls command_adapter)
    (simp add: command_def try_command_def split: option.splits)

end
